theory Spec2Isabelle
  imports Complex_Main "HOL-Library.Log_Nat"
begin

section \<open>The focal-point picker of \<open>ImageDimensionsPicker\<close>\<close>

text \<open>
  The component keeps one focal point inside a fixed container and derives from it the
  left offsets of two crop windows, a mobile and a tablet one. A finished drag moves the
  focal point by the drag's delta.

  The component is modelled twice. In the first model JavaScript numbers are exact real
  numbers: \<open>Math.max\<close> and \<open>Math.min\<close> are \<open>max\<close> and \<open>min\<close>,
  \<open>===\<close> on two numbers is equality, and no operation rounds. The properties
  that do not depend on rounding are stated on it. In the second model, whose names end
  in \<open>64\<close>, a number is a real that is a binary64 value, and every addition,
  subtraction and division is followed by the rounding \<open>fl\<close> of IEEE 754 (to
  nearest, ties to even); the properties that rounding decides are stated on that one.
  \<open>NaN\<close>, the infinities and the sign of zero are not modelled.
\<close>

subsection \<open>Data\<close>

record Position =
  x :: real
  y :: real

record Dimensions =
  width :: real
  height :: real

text \<open>The props of the component, defaults already applied.\<close>

record ImageDimensionsPickerProps =
  imageUrl :: string
  containerDimensions :: Dimensions
  mobileWidth :: real
  tabletWidth :: real

text \<open>The element a mounted \<open>ref\<close> points to; only its presence is ever inspected.\<close>

datatype HTMLDivElement = HTMLDivElement

text \<open>
  What the component holds between renders: the \<open>focalPoint\<close> of \<open>useState\<close> and
  the \<open>current\<close> field of \<open>containerRef\<close>, \<open>None\<close> for \<open>null\<close>.
\<close>

record PickerState =
  focalPoint :: Position
  containerRef :: "HTMLDivElement option"

text \<open>Of a \<open>DragEndEvent\<close> the handler reads the \<open>delta\<close> only.\<close>

record DragEndEvent =
  delta :: Position

subsection \<open>The component\<close>

text \<open>The props that \<open>Index\<close> passes.\<close>

definition Index_props :: ImageDimensionsPickerProps where
  "Index_props =
     \<lparr>imageUrl = ''/lovable-uploads/117e3d83-664d-4f6a-a4a3-af81e917db59.png'',
      containerDimensions = \<lparr>width = 800, height = 400\<rparr>,
      mobileWidth = 200,
      tabletWidth = 400\<rparr>"

text \<open>The initial value given to \<open>useState\<close>: the centre of the container.\<close>

definition initialFocalPoint :: "ImageDimensionsPickerProps \<Rightarrow> Position" where
  "initialFocalPoint props =
     \<lparr>x = width (containerDimensions props) / 2,
      y = height (containerDimensions props) / 2\<rparr>"

definition getMobileContainerPosition :: "ImageDimensionsPickerProps \<Rightarrow> real \<Rightarrow> real" where
  "getMobileContainerPosition props focalX =
     (let halfMobileWidth = mobileWidth props / 2;
          mobileLeft = focalX - halfMobileWidth;
          mobileLeft = max 0 (min mobileLeft (width (containerDimensions props) - mobileWidth props))
      in mobileLeft)"

definition getTabletContainerPosition :: "ImageDimensionsPickerProps \<Rightarrow> real \<Rightarrow> real" where
  "getTabletContainerPosition props focalX =
     (let halfTabletWidth = tabletWidth props / 2;
          tabletLeft = focalX - halfTabletWidth;
          tabletLeft = max 0 (min tabletLeft (width (containerDimensions props) - tabletWidth props))
      in tabletLeft)"

text \<open>The two offsets every render derives from the current focal point.\<close>

definition mobileLeft :: "ImageDimensionsPickerProps \<Rightarrow> PickerState \<Rightarrow> real" where
  "mobileLeft props s = getMobileContainerPosition props (x (focalPoint s))"

definition tabletLeft :: "ImageDimensionsPickerProps \<Rightarrow> PickerState \<Rightarrow> real" where
  "tabletLeft props s = getTabletContainerPosition props (x (focalPoint s))"

text \<open>
  The drag handler. Without a mounted container it returns before \<open>setFocalPoint\<close>,
  and the state stays as it is.
\<close>

definition handleDragEnd ::
  "ImageDimensionsPickerProps \<Rightarrow> PickerState \<Rightarrow> DragEndEvent \<Rightarrow> PickerState" where
  "handleDragEnd props s event =
     (if containerRef s = None then s
      else
        let newX = max 0 (min (x (focalPoint s) + x (delta event)) (width (containerDimensions props)));
            newY = max 0 (min (y (focalPoint s) + y (delta event)) (height (containerDimensions props)));
            newTabletLeft = getTabletContainerPosition props newX;
            isTabletAtLeftBoundary = (newTabletLeft = 0);
            isTabletAtRightBoundary =
              (newTabletLeft = width (containerDimensions props) - tabletWidth props);
            finalX =
              (if \<not> isTabletAtLeftBoundary \<and> \<not> isTabletAtRightBoundary
               then let newMobileLeft = getMobileContainerPosition props newX
                    in newMobileLeft + mobileWidth props / 2
               else newX)
        in s\<lparr>focalPoint := \<lparr>x = finalX, y = newY\<rparr>\<rparr>)"

subsection \<open>The vocabulary of the specification\<close>

text \<open>
  Clamping a value to the interval from \<open>lo\<close> to \<open>hi\<close>, as the specification
  uses the word: a value below the interval goes to \<open>lo\<close>, one above it to \<open>hi\<close>.
\<close>

definition clamp :: "real \<Rightarrow> real \<Rightarrow> real \<Rightarrow> real" where
  "clamp v lo hi = (if v < lo then lo else if hi < v then hi else v)"

text \<open>The specification's \<open>windowLeft\<close>, in its words: centre, then clamp.\<close>

definition windowLeft :: "real \<Rightarrow> real \<Rightarrow> real \<Rightarrow> real" where
  "windowLeft focalX windowWidth containerWidth =
     clamp (focalX - windowWidth / 2) 0 (containerWidth - windowWidth)"

text \<open>The bounds invariant of a focal point: it lies in the container.\<close>

definition inBounds :: "ImageDimensionsPickerProps \<Rightarrow> Position \<Rightarrow> bool" where
  "inBounds props p =
     (0 \<le> x p \<and> x p \<le> width (containerDimensions props) \<and>
      0 \<le> y p \<and> y p \<le> height (containerDimensions props))"



subsection \<open>Binary64 rounding\<close>




subsection \<open>The component in binary64\<close>











section \<open>Properties in exact arithmetic\<close>

subsection \<open>The window offsets\<close>

text \<open>
  Claim C1. For every focal X and every window width that is at most the container
  width, the offset that \<open>getMobileContainerPosition\<close> and
  \<open>getTabletContainerPosition\<close> return is the focal X minus half the window width,
  clamped to the interval from 0 to container width minus window width; so it is at
  least 0 and at most container width minus window width.
\<close>

theorem windowLeft_clamped:
  "(mobileWidth props \<le> width (containerDimensions props) \<longrightarrow>
      getMobileContainerPosition props focalX =
        windowLeft focalX (mobileWidth props) (width (containerDimensions props)) \<and>
      0 \<le> getMobileContainerPosition props focalX \<and>
      getMobileContainerPosition props focalX
        \<le> width (containerDimensions props) - mobileWidth props) \<and>
   (tabletWidth props \<le> width (containerDimensions props) \<longrightarrow>
      getTabletContainerPosition props focalX =
        windowLeft focalX (tabletWidth props) (width (containerDimensions props)) \<and>
      0 \<le> getTabletContainerPosition props focalX \<and>
      getTabletContainerPosition props focalX
        \<le> width (containerDimensions props) - tabletWidth props)"
  by (simp add: getMobileContainerPosition_def getTabletContainerPosition_def
      windowLeft_def clamp_def Let_def min_def max_def)

theorem windowLeft_clamped_witness:
  "mobileWidth Index_props \<le> width (containerDimensions Index_props) \<and>
   tabletWidth Index_props \<le> width (containerDimensions Index_props) \<and>
   getMobileContainerPosition Index_props 50 = 0 \<and>
   getMobileContainerPosition Index_props 400 = 300 \<and>
   getTabletContainerPosition Index_props 750 = 400 \<and>
   windowLeft 750 400 800 = 400"
  using windowLeft_clamped [of Index_props 50] windowLeft_clamped [of Index_props 400]
    windowLeft_clamped [of Index_props 750]
  by (simp add: Index_props_def windowLeft_def clamp_def)

text \<open>
  Claim C9. For every focal X, a window wider than the container gets the offset 0 from
  \<open>getMobileContainerPosition\<close> and \<open>getTabletContainerPosition\<close>: the upper
  bound of the inner \<open>min\<close> is negative, and the outer \<open>max\<close> with 0 returns 0.
\<close>

theorem windowLeft_degenerate:
  "(width (containerDimensions props) < mobileWidth props \<longrightarrow>
      getMobileContainerPosition props focalX = 0) \<and>
   (width (containerDimensions props) < tabletWidth props \<longrightarrow>
      getTabletContainerPosition props focalX = 0)"
  by (simp add: getMobileContainerPosition_def getTabletContainerPosition_def
      Let_def min_def max_def)

theorem windowLeft_degenerate_witness:
  "width (containerDimensions (Index_props\<lparr>mobileWidth := 900, tabletWidth := 1000\<rparr>)) < 900 \<and>
   getMobileContainerPosition (Index_props\<lparr>mobileWidth := 900, tabletWidth := 1000\<rparr>) 700 = 0 \<and>
   getTabletContainerPosition (Index_props\<lparr>mobileWidth := 900, tabletWidth := 1000\<rparr>) 700 = 0"
  using windowLeft_degenerate [of "Index_props\<lparr>mobileWidth := 900, tabletWidth := 1000\<rparr>" 700]
  by (simp add: Index_props_def)


subsection \<open>The drag handler\<close>



lemma max_min_clamp: "0 \<le> hi \<Longrightarrow> max 0 (min v hi) = clamp v 0 hi"
  by (simp add: clamp_def min_def max_def)

text \<open>
  Claim C2. For every focal point in the container and every delta, with the container
  mounted, the handler commits the focal X by the tablet boundary: let the provisional
  X be the focal X plus the delta's X clamped to the container, and the tablet offset
  the one of the provisional X. When the tablet offset is neither 0 nor container width
  minus tablet width, the committed X is the mobile offset of the provisional X plus
  half the mobile width; when it is one of the two, the committed X is the provisional X.
\<close>

theorem handleDragEnd_tie_break:
  assumes "containerRef s \<noteq> None"
    and "inBounds props (focalPoint s)"
    and "provisionalX =
           clamp (x (focalPoint s) + x (delta event)) 0 (width (containerDimensions props))"
    and "newTabletLeft = getTabletContainerPosition props provisionalX"
  shows "(newTabletLeft \<noteq> 0 \<and> newTabletLeft \<noteq> width (containerDimensions props) - tabletWidth props \<longrightarrow>
            x (focalPoint (handleDragEnd props s event)) =
              getMobileContainerPosition props provisionalX + mobileWidth props / 2) \<and>
         (newTabletLeft = 0 \<or> newTabletLeft = width (containerDimensions props) - tabletWidth props \<longrightarrow>
            x (focalPoint (handleDragEnd props s event)) = provisionalX)"
proof -
  have "0 \<le> width (containerDimensions props)"
    using assms(2) by (simp add: inBounds_def)
  then have "provisionalX =
      max 0 (min (x (focalPoint s) + x (delta event)) (width (containerDimensions props)))"
    using assms(3) by (simp add: max_min_clamp)
  moreover obtain el where "containerRef s = Some el"
    using assms(1) by blast
  ultimately show ?thesis
    using assms(4) by (simp add: handleDragEnd_def Let_def)
qed

theorem handleDragEnd_tie_break_witness:
  "containerRef \<lparr>focalPoint = \<lparr>x = 400, y = 200\<rparr>, containerRef = Some HTMLDivElement\<rparr> \<noteq> None \<and>
   inBounds Index_props \<lparr>x = 400, y = 200\<rparr> \<and>
   clamp (400 + 50) 0 800 = 450 \<and>
   getTabletContainerPosition Index_props 450 = 250 \<and>
   x (focalPoint (handleDragEnd Index_props
        \<lparr>focalPoint = \<lparr>x = 400, y = 200\<rparr>, containerRef = Some HTMLDivElement\<rparr>
        \<lparr>delta = \<lparr>x = 50, y = 0\<rparr>\<rparr>)) = 450 \<and>
   clamp (400 + (- 350)) 0 800 = 50 \<and>
   getTabletContainerPosition Index_props 50 = 0 \<and>
   x (focalPoint (handleDragEnd Index_props
        \<lparr>focalPoint = \<lparr>x = 400, y = 200\<rparr>, containerRef = Some HTMLDivElement\<rparr>
        \<lparr>delta = \<lparr>x = - 350, y = 0\<rparr>\<rparr>)) = 50"
  using handleDragEnd_tie_break [of
      "\<lparr>focalPoint = \<lparr>x = 400, y = 200\<rparr>, containerRef = Some HTMLDivElement\<rparr>"
      Index_props 450 "\<lparr>delta = \<lparr>x = 50, y = 0\<rparr>\<rparr>" 250]
    handleDragEnd_tie_break [of
      "\<lparr>focalPoint = \<lparr>x = 400, y = 200\<rparr>, containerRef = Some HTMLDivElement\<rparr>"
      Index_props 50 "\<lparr>delta = \<lparr>x = - 350, y = 0\<rparr>\<rparr>" 0]
  by (simp add: Index_props_def inBounds_def clamp_def getTabletContainerPosition_def
      getMobileContainerPosition_def)



text \<open>
  The fit of the mobile window is needed: a mobile window more than twice as wide as the
  container, which the configuration contract rules out, takes the focal point out of
  the container on a drag by nothing.
\<close>

lemma handleDragEnd_mobile_too_wide:
  "inBounds (Index_props\<lparr>mobileWidth := 2000\<rparr>) \<lparr>x = 400, y = 200\<rparr> \<and>
   focalPoint (handleDragEnd (Index_props\<lparr>mobileWidth := 2000\<rparr>)
      \<lparr>focalPoint = \<lparr>x = 400, y = 200\<rparr>, containerRef = Some HTMLDivElement\<rparr>
      \<lparr>delta = \<lparr>x = 0, y = 0\<rparr>\<rparr>) = \<lparr>x = 1000, y = 200\<rparr>"
  by (simp add: Index_props_def inBounds_def handleDragEnd_def Let_def
      getTabletContainerPosition_def getMobileContainerPosition_def)





text \<open>
  Claim C7. The handler does not commute in its deltas: under the props of \<open>Index\<close>
  there are a focal point in the container and two deltas for which the one order of the
  two drags commits another focal point than the other order. From (400, 200), the
  drags by (1000, 0) and then (-500, 0) end at X 300, in the other order at X 800.
\<close>

theorem handleDragEnd_not_commutative:
  "\<exists>s d1 d2.
     containerRef s \<noteq> None \<and> inBounds Index_props (focalPoint s) \<and>
     focalPoint (handleDragEnd Index_props (handleDragEnd Index_props s d1) d2) \<noteq>
     focalPoint (handleDragEnd Index_props (handleDragEnd Index_props s d2) d1)"
proof (intro exI conjI)
  let ?s = "\<lparr>focalPoint = \<lparr>x = 400, y = 200\<rparr>, containerRef = Some HTMLDivElement\<rparr>"
  let ?d1 = "\<lparr>delta = \<lparr>x = 1000, y = 0\<rparr>\<rparr>"
  let ?d2 = "\<lparr>delta = \<lparr>x = - 500, y = 0\<rparr>\<rparr>"
  show "containerRef ?s \<noteq> None"
    by simp
  show "inBounds Index_props (focalPoint ?s)"
    by (simp add: inBounds_def Index_props_def)
  have "x (focalPoint (handleDragEnd Index_props (handleDragEnd Index_props ?s ?d1) ?d2)) = 300"
    by (simp add: handleDragEnd_def Let_def Index_props_def
        getTabletContainerPosition_def getMobileContainerPosition_def)
  moreover
  have "x (focalPoint (handleDragEnd Index_props (handleDragEnd Index_props ?s ?d2) ?d1)) = 800"
    by (simp add: handleDragEnd_def Let_def Index_props_def
        getTabletContainerPosition_def getMobileContainerPosition_def)
  ultimately
  show "focalPoint (handleDragEnd Index_props (handleDragEnd Index_props ?s ?d1) ?d2) \<noteq>
        focalPoint (handleDragEnd Index_props (handleDragEnd Index_props ?s ?d2) ?d1)"
    by auto
qed

text \<open>
  Claim C8. Under the props of \<open>Index\<close> (container 800 by 400, mobile width 200,
  tablet width 400) and from the focal point (400, 200), the drag by (-350, 0) has the
  provisional X 50, whose tablet offset is 0, the left boundary; the handler commits the
  focal X 50 as it is, and the mobile offset derived from it is 0.
\<close>

theorem left_boundary_scenario:
  "initialFocalPoint Index_props = \<lparr>x = 400, y = 200\<rparr> \<and>
   clamp (400 + (- 350)) 0 (width (containerDimensions Index_props)) = 50 \<and>
   getTabletContainerPosition Index_props 50 = 0 \<and>
   windowLeft 50 400 800 = 0 \<and>
   focalPoint (handleDragEnd Index_props
      \<lparr>focalPoint = initialFocalPoint Index_props, containerRef = Some HTMLDivElement\<rparr>
      \<lparr>delta = \<lparr>x = - 350, y = 0\<rparr>\<rparr>) = \<lparr>x = 50, y = 200\<rparr> \<and>
   mobileLeft Index_props (handleDragEnd Index_props
      \<lparr>focalPoint = initialFocalPoint Index_props, containerRef = Some HTMLDivElement\<rparr>
      \<lparr>delta = \<lparr>x = - 350, y = 0\<rparr>\<rparr>) = 0 \<and>
   getMobileContainerPosition Index_props 50 = 0 \<and>
   windowLeft 50 200 800 = 0"
  by (simp add: initialFocalPoint_def Index_props_def clamp_def windowLeft_def
      handleDragEnd_def mobileLeft_def Let_def
      getTabletContainerPosition_def getMobileContainerPosition_def)

section \<open>Properties under binary64 rounding\<close>

subsection \<open>The rounding\<close>




















subsection \<open>Values on a grid are computed exactly\<close>
















subsection \<open>The window offsets in binary64\<close>




subsection \<open>The drag handler in binary64\<close>







end
